theory Spec2Isabelle
  imports Main "HOL-Library.Sublist"
begin

section \<open>The watch handler of snaps-cli\<close>

text \<open>
  A shallow embedding of \<^verbatim>\<open>packages/snaps-cli/src/cmds/watch/watchHandler.ts\<close>:
  the function \<^verbatim>\<open>watch\<close>, its inner function \<^verbatim>\<open>buildSnap\<close>, the list of
  ignored paths handed to the file watcher, and the five event handlers.
\<close>

subsection \<open>JavaScript string operations used by the handler\<close>

text \<open>
  A string is the list of its code units. The operations are the ones the source calls
  (\<^verbatim>\<open>includes\<close>, \<^verbatim>\<open>lastIndexOf\<close>, \<^verbatim>\<open>substring\<close>, \<^verbatim>\<open>startsWith\<close>), with
  the results ECMAScript gives them: \<^verbatim>\<open>lastIndexOf\<close> is \<open>-1\<close> when there is no
  occurrence, and \<^verbatim>\<open>substring\<close> clamps both indices into the string and swaps them when
  the first is the larger.
\<close>

definition startsWith :: "string \<Rightarrow> string \<Rightarrow> bool" where
  "startsWith s p = prefix p s"

fun includes_str :: "string \<Rightarrow> string \<Rightarrow> bool" where
  "includes_str [] p = (p = [])"
| "includes_str (c # cs) p = (prefix p (c # cs) \<or> includes_str cs p)"

fun lastIndexOf :: "string \<Rightarrow> string \<Rightarrow> int" where
  "lastIndexOf [] p = (if p = [] then 0 else - 1)"
| "lastIndexOf (c # cs) p =
     (let r = lastIndexOf cs p
      in if 0 \<le> r then r + 1 else if prefix p (c # cs) then 0 else - 1)"

definition substring :: "string \<Rightarrow> int \<Rightarrow> int \<Rightarrow> string" where
  "substring s a b =
     (let n = int (length s);
          a' = max 0 (min a n);
          b' = max 0 (min b n);
          lo = min a' b';
          hi = max a' b'
      in take (nat (hi - lo)) (drop (nat lo) s))"

subsection \<open>The root directory\<close>

text \<open>
  \<^verbatim>\<open>const rootDir = src.includes('/') ? src.substring(0, src.lastIndexOf('/') + 1) : '.';\<close>
\<close>

definition rootDir :: "string \<Rightarrow> string" where
  "rootDir src =
     (if includes_str src ''/'' then substring src 0 (lastIndexOf src ''/'' + 1) else ''.'')"

subsection \<open>The ignored paths\<close>

text \<open>
  The watcher is given a list of matchers: six glob patterns and one predicate on the
  path.
\<close>

text \<open>
  Modelled from the spec: the glob matcher, which belongs to the watcher library and is
  not under the source tree. The spec reads the patterns as "any path containing a
  \<^verbatim>\<open>node_modules\<close> segment", "any path under" a directory, "any file matching"
  \<^verbatim>\<open>*.test.js\<close>. The library first normalises a pattern given as a string the way
  it normalises a path: the pattern is split at \<^verbatim>\<open>/\<close>, empty segments and
  \<^verbatim>\<open>.\<close> segments are dropped, and a \<^verbatim>\<open>..\<close> segment removes the segment before
  it. Then pattern and path are matched segment by segment: the segment \<^verbatim>\<open>**\<close>
  stands for any number of path segments (none included, also at the end of the
  pattern); inside a segment \<^verbatim>\<open>*\<close> stands for any run of characters (the library
  is called with its \<^verbatim>\<open>dot\<close> option, so a leading dot is matched like any
  character). Every other character is matched literally: this is what the library
  does for the six patterns of the source as long as the output directory spliced into
  the second one has no further glob metacharacter (\<open>glob_special\<close> below); for an
  output directory that has one, the model says nothing about the library.
\<close>

fun split_on :: "char \<Rightarrow> string \<Rightarrow> string list" where
  "split_on sep [] = [[]]"
| "split_on sep (c # cs) =
     (if c = sep then [] # split_on sep cs
      else (case split_on sep cs of [] \<Rightarrow> [[c]] | s # ss \<Rightarrow> (c # s) # ss))"

definition segments :: "string \<Rightarrow> string list" where
  "segments p = split_on (CHR ''/'') p"

fun seg_match :: "string \<Rightarrow> string \<Rightarrow> bool" where
  "seg_match [] [] = True"
| "seg_match [] (c # s) = False"
| "seg_match (p # ps) [] = (p = CHR ''*'' \<and> seg_match ps [])"
| "seg_match (p # ps) (c # s) =
     (if p = CHR ''*'' then seg_match ps (c # s) \<or> seg_match (p # ps) s
      else p = c \<and> seg_match ps s)"

fun glob_segs :: "string list \<Rightarrow> string list \<Rightarrow> bool" where
  "glob_segs [] [] = True"
| "glob_segs [] (s # ss) = False"
| "glob_segs (p # ps) [] = (p = ''**'' \<and> glob_segs ps [])"
| "glob_segs (p # ps) (s # ss) =
     (if p = ''**'' then glob_segs ps (s # ss) \<or> glob_segs (p # ps) ss
      else seg_match p s \<and> glob_segs ps ss)"

text \<open>
  The normalisation of a relative (\<open>rel\<close>) or absolute path, on its segments; an
  empty result is the path \<^verbatim>\<open>.\<close>. The patterns of the source all start with
  \<^verbatim>\<open>**/\<close>, so they are relative.
\<close>

fun push_segment :: "bool \<Rightarrow> string list \<Rightarrow> string \<Rightarrow> string list" where
  "push_segment rel res s =
     (if s = [] \<or> s = ''.'' then res
      else if s = ''..'' then
        (if res \<noteq> [] \<and> last res \<noteq> ''..'' then butlast res
         else if rel then res @ [''..''] else res)
      else res @ [s])"

definition normalize_segments :: "bool \<Rightarrow> string list \<Rightarrow> string list" where
  "normalize_segments rel ss = foldl (push_segment rel) [] ss"

definition normalizeIgnored :: "string \<Rightarrow> string list" where
  "normalizeIgnored pat =
     (let res = normalize_segments True (segments pat) in if res = [] then [''.''] else res)"

definition glob_match :: "string \<Rightarrow> string \<Rightarrow> bool" where
  "glob_match pat path = glob_segs (normalizeIgnored pat) (segments path)"

datatype matcher = Glob string | Predicate "string \<Rightarrow> bool"

fun matches :: "matcher \<Rightarrow> string \<Rightarrow> bool" where
  "matches (Glob pat) str = glob_match pat str"
| "matches (Predicate f) str = f str"

text \<open>The \<^verbatim>\<open>ignored\<close> option of the source, for the output directory \<open>dist\<close>.\<close>

definition ignored :: "string \<Rightarrow> matcher list" where
  "ignored dist =
     [Glob ''**/node_modules/**'',
      Glob (''**/'' @ dist @ ''/**''),
      Glob ''**/test/**'',
      Glob ''**/tests/**'',
      Glob ''**/*.test.js'',
      Glob ''**/*.test.ts'',
      Predicate (\<lambda>str. str \<noteq> ''.'' \<and> startsWith str ''.'')]"

text \<open>A path is ignored when some matcher of the list accepts it.\<close>

definition is_ignored :: "string \<Rightarrow> string \<Rightarrow> bool" where
  "is_ignored dist str = list_ex (\<lambda>m. matches m str) (ignored dist)"

subsection \<open>Paths under the output directory\<close>



text \<open>
  The characters with a meaning of their own in a glob of the watcher library, besides
  \<^verbatim>\<open>/\<close>. An output directory is plain when it is a relative path with none of
  them and without a \<^verbatim>\<open>..\<close> segment; its names are its segments other than the
  empty one and \<^verbatim>\<open>.\<close>.
\<close>

definition glob_special :: "char \<Rightarrow> bool" where
  "glob_special c =
     (c \<in> set [CHR ''*'', CHR ''?'', CHR ''['', CHR '']'', CHR 0x7B, CHR 0x7D, CHR ''('',
                CHR '')'', CHR ''!'', CHR ''+'', CHR 0x40, CHR ''|'', CHR ''^'', CHR ''$'',
                CHR '','', CHR 0x5C])"

definition plain_dir :: "string \<Rightarrow> bool" where
  "plain_dir dir =
     (\<not> startsWith dir ''/'' \<and> ''..'' \<notin> set (segments dir) \<and>
      list_all (\<lambda>c. \<not> glob_special c) dir)"



subsection \<open>Effects, promises and collaborators\<close>

text \<open>
  What the handler does is calling its collaborators and writing log lines. A run is
  modelled by the trace of these effects, in the order they happen. A collaborator
  either returns (resolves) or throws (rejects); which one is given by the parameter
  \<open>outcome\<close>, as a function of the call and of the trace before it, so that a
  collaborator may answer differently each time. The two loggers write their line and
  return. \<^verbatim>\<open>getOutfilePath\<close>, a helper of the utilities package, is a parameter
  too.
\<close>

datatype error = JsError (message: string)

datatype call =
    ValidateOutfileName string
  | ValidateFilePath string
  | ValidateDirPath string bool
  | LoadConfig
  | Bundle string string
  | ManifestHandler
  | EvalHandler string
  | Serve
  | ChokidarWatch string

datatype effect = Call call | LogInfo string | LogError string error

type_synonym trace = "effect list"

datatype settled = Resolved | Rejected error

type_synonym action = "trace \<Rightarrow> settled \<times> trace"

record argv =
  dist :: string
  shouldEval :: bool
  manifest :: bool
  outfileName :: "string option"
  src :: string
  shouldServe :: bool

record deps =
  outcome :: "call \<Rightarrow> trace \<Rightarrow> error option"
  getOutfilePath :: "string \<Rightarrow> string option \<Rightarrow> string"

definition invoke :: "deps \<Rightarrow> call \<Rightarrow> action" where
  "invoke d c t =
     ((case outcome d c t of None \<Rightarrow> Resolved | Some e \<Rightarrow> Rejected e), t @ [Call c])"

definition logInfo :: "string \<Rightarrow> action" where
  "logInfo m t = (Resolved, t @ [LogInfo m])"

definition logError :: "string \<Rightarrow> error \<Rightarrow> action" where
  "logError m e t = (Resolved, t @ [LogError m e])"

definition skip :: action where
  "skip t = (Resolved, t)"

text \<open>\<^verbatim>\<open>await a; b\<close> and \<^verbatim>\<open>a.then(() => b)\<close>: \<open>b\<close> runs only when \<open>a\<close> resolves.\<close>

definition andThen :: "action \<Rightarrow> action \<Rightarrow> action" where
  "andThen a b t =
     (case a t of (Resolved, t') \<Rightarrow> b t' | (Rejected e, t') \<Rightarrow> (Rejected e, t'))"

text \<open>\<^verbatim>\<open>try { a } catch (error) { h }\<close> and \<^verbatim>\<open>a.catch((error) => h)\<close>.\<close>

definition tryCatch :: "action \<Rightarrow> (error \<Rightarrow> action) \<Rightarrow> action" where
  "tryCatch a h t =
     (case a t of (Resolved, t') \<Rightarrow> (Resolved, t') | (Rejected e, t') \<Rightarrow> h e t')"

subsection \<open>The rebuild function\<close>

definition outfilePath :: "deps \<Rightarrow> argv \<Rightarrow> string" where
  "outfilePath d a = getOutfilePath d (dist a) (outfileName a)"

definition quoted :: "string \<Rightarrow> string" where
  "quoted p = [CHR 0x22] @ p @ [CHR 0x22]"

text \<open>The body of the \<^verbatim>\<open>try\<close> block of \<^verbatim>\<open>buildSnap\<close>.\<close>

definition pipeline :: "deps \<Rightarrow> argv \<Rightarrow> action" where
  "pipeline d a =
     andThen (invoke d LoadConfig)
    (andThen (invoke d (Bundle (src a) (outfilePath d a)))
    (andThen (if manifest a then invoke d ManifestHandler else skip)
             (if shouldEval a then invoke d (EvalHandler (outfilePath d a)) else skip)))"

text \<open>The message of the \<^verbatim>\<open>catch\<close> block, a template literal over the optional path.\<close>

definition errorMessage :: "string option \<Rightarrow> string" where
  "errorMessage path =
     ''Error '' @
     (case path of None \<Rightarrow> ''during initial build''
      | Some p \<Rightarrow> ''while processing '' @ quoted p) @ ''.''"

definition buildSnap :: "deps \<Rightarrow> argv \<Rightarrow> string option \<Rightarrow> string option \<Rightarrow> action" where
  "buildSnap d a path logMessage =
     andThen (case logMessage of None \<Rightarrow> skip | Some m \<Rightarrow> logInfo m)
       (tryCatch (pipeline d a) (\<lambda>error. logError (errorMessage path) error))"

subsection \<open>Setup and event handlers\<close>

definition watch :: "deps \<Rightarrow> argv \<Rightarrow> action" where
  "watch d a =
     andThen (case outfileName a of None \<Rightarrow> skip
              | Some n \<Rightarrow> if n = [] then skip else invoke d (ValidateOutfileName n))
    (andThen (invoke d (ValidateFilePath (src a)))
    (andThen (invoke d (ValidateDirPath (dist a) True))
    (andThen (invoke d (ChokidarWatch (rootDir (src a))))
             (logInfo (''Watching '' @ [CHR 0x27] @ rootDir (src a) @ [CHR 0x27] @
                       '' for changes...'')))))"

definition on_ready :: "deps \<Rightarrow> argv \<Rightarrow> action" where
  "on_ready d a =
     tryCatch
       (andThen (buildSnap d a None None) (if shouldServe a then invoke d Serve else skip))
       (\<lambda>error. logError ''Error during initial build.'' error)"

definition on_add :: "deps \<Rightarrow> argv \<Rightarrow> string \<Rightarrow> action" where
  "on_add d a path =
     tryCatch (buildSnap d a (Some path) (Some (''File added: '' @ path)))
       (\<lambda>error. logError (''Error while processing '' @ quoted path @ ''.'') error)"

definition on_change :: "deps \<Rightarrow> argv \<Rightarrow> string \<Rightarrow> action" where
  "on_change d a path =
     tryCatch (buildSnap d a (Some path) (Some (''File changed: '' @ path)))
       (\<lambda>error. logError (''Error while processing '' @ quoted path @ ''.'') error)"

definition on_unlink :: "string \<Rightarrow> action" where
  "on_unlink path = logInfo (''File removed: '' @ path)"

definition on_error :: "error \<Rightarrow> action" where
  "on_error error = logError (''Watcher error: '' @ message error) error"

subsection \<open>The watcher's events\<close>

text \<open>
  Modelled from the spec: the dispatch of the watcher library, which is not under the
  source tree. The watcher emits \<^verbatim>\<open>ready\<close>, \<^verbatim>\<open>add\<close>, \<^verbatim>\<open>change\<close>, \<^verbatim>\<open>unlink\<close> and
  \<^verbatim>\<open>error\<close>. It emits no file event for a path that the list of ignored paths
  accepts. A handler runs to its end before the next event is taken; overlapping runs
  of two handlers are outside this model. A handler whose promise is rejected would be
  an unhandled rejection: the session ends there.
\<close>

datatype event = Ready | Add string | Change string | Unlink string | WatcherError error

fun emit :: "deps \<Rightarrow> argv \<Rightarrow> event \<Rightarrow> action" where
  "emit d a Ready = on_ready d a"
| "emit d a (Add path) = (if is_ignored (dist a) path then skip else on_add d a path)"
| "emit d a (Change path) = (if is_ignored (dist a) path then skip else on_change d a path)"
| "emit d a (Unlink path) = (if is_ignored (dist a) path then skip else on_unlink path)"
| "emit d a (WatcherError e) = on_error e"

fun session :: "deps \<Rightarrow> argv \<Rightarrow> event list \<Rightarrow> action" where
  "session d a [] = skip"
| "session d a (ev # evs) = andThen (emit d a ev) (session d a evs)"

text \<open>The collaborator calls of a trace, and how often the dev server was started.\<close>

fun calls :: "trace \<Rightarrow> call list" where
  "calls [] = []"
| "calls (Call c # t) = c # calls t"
| "calls (_ # t) = calls t"

definition serve_starts :: "trace \<Rightarrow> nat" where
  "serve_starts t = count_list (calls t) Serve"

text \<open>The number of error lines in a trace.\<close>

fun error_logs :: "trace \<Rightarrow> nat" where
  "error_logs [] = 0"
| "error_logs (LogError m e # t) = Suc (error_logs t)"
| "error_logs (_ # t) = error_logs t"

subsection \<open>Sample inputs\<close>

text \<open>
  A configuration and collaborators used where a property is evaluated at a concrete
  input: the collaborators listed in \<open>failing\<close> reject, all others resolve.
\<close>

definition sample_argv :: argv where
  "sample_argv =
     \<lparr>dist = ''dist'', shouldEval = True, manifest = True, outfileName = None,
      src = ''src/index.js'', shouldServe = True\<rparr>"

definition sample_deps :: "call list \<Rightarrow> deps" where
  "sample_deps failing =
     \<lparr>outcome = (\<lambda>c t. if c \<in> set failing then Some (JsError ''boom'') else None),
      getOutfilePath = (\<lambda>dir name. dir @ ''/'' @ (case name of None \<Rightarrow> ''bundle.js'' | Some n \<Rightarrow> n))\<rparr>"

text \<open>Whether a promise was rejected.\<close>

fun is_rejected :: "settled \<Rightarrow> bool" where
  "is_rejected Resolved = False"
| "is_rejected (Rejected e) = True"

section \<open>Properties\<close>

subsection \<open>The root directory\<close>

lemma includes_char: "includes_str s [c] \<longleftrightarrow> c \<in> set s"
  by (induction s) auto

lemma lastIndexOf_absent: "c \<notin> set s \<Longrightarrow> lastIndexOf s [c] = - 1"
  by (induction s) (auto simp: Let_def)

lemma lastIndexOf_last:
  "c \<notin> set post \<Longrightarrow> lastIndexOf (pre @ c # post) [c] = int (length pre)"
proof (induction pre)
  case Nil
  then show ?case by (simp add: Let_def lastIndexOf_absent)
next
  case (Cons x pre)
  then show ?case by (simp add: Let_def)
qed

lemma substring_prefix: "substring (pre @ c # post) 0 (int (length pre) + 1) = pre @ [c]"
  by (simp add: substring_def Let_def min_def max_def nat_add_distrib)

lemma rootDir_split:
  "CHR ''/'' \<notin> set post \<Longrightarrow> rootDir (pre @ CHR ''/'' # post) = pre @ [CHR ''/'']"
  by (simp add: rootDir_def includes_char lastIndexOf_last substring_prefix)

text \<open>
  Claim C3. For every source path, the root directory is the source path up to and
  including its last directory separator when the path contains a separator (what
  follows that separator contains none), and it is \<^verbatim>\<open>.\<close> otherwise. The root
  directory is a value computed from the source path alone: the source binds it once
  with \<^verbatim>\<open>const\<close>, and the model has no state that holds it.
\<close>

theorem rootDir_spec:
  "(CHR ''/'' \<in> set s \<longrightarrow>
      (\<exists>pre post. s = pre @ ''/'' @ post \<and> CHR ''/'' \<notin> set post \<and> rootDir s = pre @ ''/'')) \<and>
   (CHR ''/'' \<notin> set s \<longrightarrow> rootDir s = ''.'')"
proof (intro conjI impI)
  assume "CHR ''/'' \<in> set s"
  from split_list_last [OF this]
  obtain pre post where s: "s = pre @ CHR ''/'' # post \<and> CHR ''/'' \<notin> set post"
    by blast
  then have "s = pre @ ''/'' @ post \<and> CHR ''/'' \<notin> set post \<and> rootDir s = pre @ ''/''"
    by (simp add: rootDir_split)
  then show "\<exists>pre post. s = pre @ ''/'' @ post \<and> CHR ''/'' \<notin> set post \<and> rootDir s = pre @ ''/''"
    by blast
next
  assume "CHR ''/'' \<notin> set s"
  then show "rootDir s = ''.''" by (simp add: rootDir_def includes_char)
qed

theorem rootDir_spec_witness:
  "CHR ''/'' \<in> set ''src/index.js'' \<and>
   (\<exists>pre post. ''src/index.js'' = pre @ ''/'' @ post \<and> CHR ''/'' \<notin> set post \<and>
      rootDir ''src/index.js'' = pre @ ''/'') \<and>
   CHR ''/'' \<notin> set ''index.js'' \<and> rootDir ''index.js'' = ''.''"
proof -
  have h1: "CHR ''/'' \<in> set ''src/index.js''" by simp
  have h2: "CHR ''/'' \<notin> set ''index.js''" by simp
  note c1 = rootDir_spec [of "''src/index.js''", THEN conjunct1, THEN mp, OF h1]
  note c2 = rootDir_spec [of "''index.js''", THEN conjunct2, THEN mp, OF h2]
  show ?thesis by (rule conjI h1 c1 h2 c2)+
qed


subsection \<open>The rebuild function\<close>

lemmas action_defs = andThen_def tryCatch_def invoke_def logInfo_def logError_def skip_def

lemma calls_append: "calls (t @ u) = calls t @ calls u"
  by (induction t rule: calls.induct) simp_all

lemma error_logs_append: "error_logs (t @ u) = error_logs t + error_logs u"
  by (induction t rule: error_logs.induct) simp_all

lemma buildSnap_resolved: "fst (buildSnap d a path logMessage t) = Resolved"
  by (simp add: buildSnap_def action_defs split: option.splits prod.splits settled.splits)

lemma buildSnap_eq:
  "buildSnap d a path logMessage t =
     (let t1 = (case logMessage of None \<Rightarrow> t | Some m \<Rightarrow> t @ [LogInfo m])
      in case pipeline d a t1 of
           (Resolved, t2) \<Rightarrow> (Resolved, t2)
         | (Rejected e, t2) \<Rightarrow> (Resolved, t2 @ [LogError (errorMessage path) e]))"
  by (simp add: buildSnap_def action_defs split: option.splits prod.splits settled.splits)

lemma pipeline_eq:
  "pipeline d a t =
     (let out = outfilePath d a; t1 = t @ [Call LoadConfig] in
      case outcome d LoadConfig t of Some e \<Rightarrow> (Rejected e, t1)
      | None \<Rightarrow>
        (let t2 = t1 @ [Call (Bundle (src a) out)] in
         case outcome d (Bundle (src a) out) t1 of Some e \<Rightarrow> (Rejected e, t2)
         | None \<Rightarrow>
           (let t3 = (if manifest a then t2 @ [Call ManifestHandler] else t2) in
            case (if manifest a then outcome d ManifestHandler t2 else None) of
              Some e \<Rightarrow> (Rejected e, t3)
            | None \<Rightarrow>
               (if shouldEval a
                then ((case outcome d (EvalHandler out) t3 of None \<Rightarrow> Resolved
                       | Some e \<Rightarrow> Rejected e), t3 @ [Call (EvalHandler out)])
                else (Resolved, t3)))))"
  by (simp add: pipeline_def action_defs Let_def split: option.splits)


lemma sample_out: "outfilePath (sample_deps f) sample_argv = ''dist/bundle.js''"
  by (simp add: outfilePath_def sample_deps_def sample_argv_def)

lemma sample_outcome:
  "outcome (sample_deps f) c t = (if c \<in> set f then Some (JsError ''boom'') else None)"
  by (simp add: sample_deps_def)

lemma sample_fields:
  "dist sample_argv = ''dist''" "shouldEval sample_argv" "manifest sample_argv"
  "outfileName sample_argv = None" "src sample_argv = ''src/index.js''" "shouldServe sample_argv"
  by (simp_all add: sample_argv_def)

text \<open>
  Claim C4. In one run of \<^verbatim>\<open>buildSnap\<close> the collaborators are called in the order
  bundle (whose call begins with loading the configuration), manifest check (if
  enabled), eval (if enabled): the calls of every run are an initial part of that
  list. A failing step prevents every later one: when loading the configuration
  fails, nothing else is called; when the bundler fails, neither the manifest check nor
  eval is called; when the manifest check fails, eval is not called. When no earlier
  step fails, every enabled step is called.
\<close>

theorem buildSnap_step_order:
  assumes t1: "t1 = (case logMessage of None \<Rightarrow> t | Some m \<Rightarrow> t @ [LogInfo m])"
    and out: "out = outfilePath d a"
    and t2: "t2 = t1 @ [Call LoadConfig]"
    and t3: "t3 = t2 @ [Call (Bundle (src a) out)]"
  shows
    "(\<exists>k. calls (snd (buildSnap d a path logMessage t)) =
          calls t @ take k ([LoadConfig, Bundle (src a) out] @
            (if manifest a then [ManifestHandler] else []) @
            (if shouldEval a then [EvalHandler out] else []))) \<and>
     (outcome d LoadConfig t1 \<noteq> None \<longrightarrow>
        calls (snd (buildSnap d a path logMessage t)) = calls t @ [LoadConfig]) \<and>
     (outcome d LoadConfig t1 = None \<and> outcome d (Bundle (src a) out) t2 \<noteq> None \<longrightarrow>
        calls (snd (buildSnap d a path logMessage t)) =
          calls t @ [LoadConfig, Bundle (src a) out]) \<and>
     (outcome d LoadConfig t1 = None \<and> outcome d (Bundle (src a) out) t2 = None \<and>
      manifest a \<and> outcome d ManifestHandler t3 \<noteq> None \<longrightarrow>
        calls (snd (buildSnap d a path logMessage t)) =
          calls t @ [LoadConfig, Bundle (src a) out, ManifestHandler]) \<and>
     (outcome d LoadConfig t1 = None \<and> outcome d (Bundle (src a) out) t2 = None \<and>
      (manifest a \<longrightarrow> outcome d ManifestHandler t3 = None) \<longrightarrow>
        calls (snd (buildSnap d a path logMessage t)) =
          calls t @ [LoadConfig, Bundle (src a) out] @
            (if manifest a then [ManifestHandler] else []) @
            (if shouldEval a then [EvalHandler out] else []))"
proof -
  let ?run = "calls (snd (buildSnap d a path logMessage t))"
  let ?steps = "[LoadConfig, Bundle (src a) out] @
            (if manifest a then [ManifestHandler] else []) @
            (if shouldEval a then [EvalHandler out] else [])"
  have ct1: "calls t1 = calls t"
    by (simp add: t1 calls_append split: option.splits)
  have ct2: "calls t2 = calls t @ [LoadConfig]"
    by (simp add: t2 ct1 calls_append)
  have ct3: "calls t3 = calls t @ [LoadConfig, Bundle (src a) out]"
    by (simp add: t3 ct2 calls_append)
  have config_fails: "?run = calls t @ [LoadConfig]"
    if "outcome d LoadConfig t1 \<noteq> None"
    using that ct1 ct2
    by (auto simp: buildSnap_eq pipeline_eq Let_def t1 [symmetric] out [symmetric]
        t2 [symmetric] calls_append)
  have bundle_fails: "?run = calls t @ [LoadConfig, Bundle (src a) out]"
    if "outcome d LoadConfig t1 = None" "outcome d (Bundle (src a) out) t2 \<noteq> None"
    using that ct1 ct2 ct3
    by (auto simp: buildSnap_eq pipeline_eq Let_def t1 [symmetric] out [symmetric]
        t2 [symmetric] calls_append)
  have manifest_fails: "?run = calls t @ [LoadConfig, Bundle (src a) out, ManifestHandler]"
    if "outcome d LoadConfig t1 = None" "outcome d (Bundle (src a) out) t2 = None"
      "manifest a" "outcome d ManifestHandler t3 \<noteq> None"
    using that ct1 ct2 ct3
    by (auto simp: buildSnap_eq pipeline_eq Let_def t1 [symmetric] out [symmetric]
        t2 [symmetric] t3 [symmetric] calls_append)
  have all_run: "?run = calls t @ ?steps"
    if "outcome d LoadConfig t1 = None" "outcome d (Bundle (src a) out) t2 = None"
      "manifest a \<longrightarrow> outcome d ManifestHandler t3 = None"
    using that ct1 ct2 ct3
    by (auto simp: buildSnap_eq pipeline_eq Let_def t1 [symmetric] out [symmetric]
        t2 [symmetric] t3 [symmetric] calls_append split: option.splits)
  have initial_part: "\<exists>k. ?run = calls t @ take k ?steps"
  proof (cases "outcome d LoadConfig t1 = None")
    case False
    then have "?run = calls t @ take 1 ?steps" using config_fails by simp
    then show ?thesis by blast
  next
    case cfg: True
    show ?thesis
    proof (cases "outcome d (Bundle (src a) out) t2 = None")
      case False
      then have "?run = calls t @ take 2 ?steps" using bundle_fails cfg by simp
      then show ?thesis by blast
    next
      case ok: True
      show ?thesis
      proof (cases "manifest a \<longrightarrow> outcome d ManifestHandler t3 = None")
        case True
        then have "?run = calls t @ take (length ?steps) ?steps" using all_run cfg ok by simp
        then show ?thesis by blast
      next
        case False
        then have "?run = calls t @ take 3 ?steps" using manifest_fails cfg ok by simp
        then show ?thesis by blast
      qed
    qed
  qed
  show ?thesis
    using initial_part config_fails bundle_fails manifest_fails all_run by blast
qed

theorem buildSnap_step_order_witness:
  "outcome (sample_deps [LoadConfig]) LoadConfig [] \<noteq> None \<and>
   calls (snd (buildSnap (sample_deps [LoadConfig]) sample_argv None None [])) = [LoadConfig] \<and>
   outcome (sample_deps [Bundle ''src/index.js'' ''dist/bundle.js''])
     (Bundle ''src/index.js'' ''dist/bundle.js'') [Call LoadConfig] \<noteq> None \<and>
   calls (snd (buildSnap (sample_deps [Bundle ''src/index.js'' ''dist/bundle.js''])
     sample_argv None None [])) = [LoadConfig, Bundle ''src/index.js'' ''dist/bundle.js''] \<and>
   outcome (sample_deps [ManifestHandler]) ManifestHandler
     [Call LoadConfig, Call (Bundle ''src/index.js'' ''dist/bundle.js'')] \<noteq> None \<and>
   calls (snd (buildSnap (sample_deps [ManifestHandler]) sample_argv
     (Some ''src/helpers.js'') (Some ''File changed: src/helpers.js'') [])) =
     [LoadConfig, Bundle ''src/index.js'' ''dist/bundle.js'', ManifestHandler] \<and>
   calls (snd (buildSnap (sample_deps []) sample_argv None None [])) =
     [LoadConfig, Bundle ''src/index.js'' ''dist/bundle.js'', ManifestHandler,
      EvalHandler ''dist/bundle.js'']"
proof -
  have w0: "calls (snd (buildSnap (sample_deps [LoadConfig]) sample_argv None None [])) =
     [LoadConfig]"
    using buildSnap_step_order [where d = "sample_deps [LoadConfig]"
        and a = sample_argv and path = None and logMessage = None and t = "[]" and ?t1.0 = "[]"
        and out = "''dist/bundle.js''" and ?t2.0 = "[Call LoadConfig]"
        and ?t3.0 = "[Call LoadConfig, Call (Bundle ''src/index.js'' ''dist/bundle.js'')]"]
    by (simp add: sample_out sample_outcome sample_fields)
  have w1: "calls (snd (buildSnap (sample_deps [Bundle ''src/index.js'' ''dist/bundle.js''])
     sample_argv None None [])) = [LoadConfig, Bundle ''src/index.js'' ''dist/bundle.js'']"
    using buildSnap_step_order [where d = "sample_deps [Bundle ''src/index.js'' ''dist/bundle.js'']"
        and a = sample_argv and path = None and logMessage = None and t = "[]" and ?t1.0 = "[]"
        and out = "''dist/bundle.js''" and ?t2.0 = "[Call LoadConfig]"
        and ?t3.0 = "[Call LoadConfig, Call (Bundle ''src/index.js'' ''dist/bundle.js'')]"]
    by (simp add: sample_out sample_outcome sample_fields)
  have w2: "calls (snd (buildSnap (sample_deps [ManifestHandler]) sample_argv
     (Some ''src/helpers.js'') (Some ''File changed: src/helpers.js'') [])) =
     [LoadConfig, Bundle ''src/index.js'' ''dist/bundle.js'', ManifestHandler]"
    using buildSnap_step_order [where d = "sample_deps [ManifestHandler]"
        and a = sample_argv and path = "Some ''src/helpers.js''"
        and logMessage = "Some ''File changed: src/helpers.js''" and t = "[]"
        and ?t1.0 = "[LogInfo ''File changed: src/helpers.js'']"
        and out = "''dist/bundle.js''"
        and ?t2.0 = "[LogInfo ''File changed: src/helpers.js'', Call LoadConfig]"
        and ?t3.0 = "[LogInfo ''File changed: src/helpers.js'', Call LoadConfig,
                      Call (Bundle ''src/index.js'' ''dist/bundle.js'')]"]
    by (simp add: sample_out sample_outcome sample_fields)
  have w3: "calls (snd (buildSnap (sample_deps []) sample_argv None None [])) =
     [LoadConfig, Bundle ''src/index.js'' ''dist/bundle.js'', ManifestHandler,
      EvalHandler ''dist/bundle.js'']"
    using buildSnap_step_order [where d = "sample_deps []"
        and a = sample_argv and path = None and logMessage = None and t = "[]" and ?t1.0 = "[]"
        and out = "''dist/bundle.js''" and ?t2.0 = "[Call LoadConfig]"
        and ?t3.0 = "[Call LoadConfig, Call (Bundle ''src/index.js'' ''dist/bundle.js'')]"]
    by (simp add: sample_out sample_outcome sample_fields)
  show ?thesis using w0 w1 w2 w3 by (simp add: sample_outcome)
qed

lemma pipeline_error_logs: "error_logs (snd (pipeline d a t)) = error_logs t"
  by (simp add: pipeline_eq Let_def error_logs_append split: option.splits)

lemma on_ready_eq:
  "on_ready d a t =
     (let t1 = snd (buildSnap d a None None t)
      in if shouldServe a
         then (Resolved, t1 @ Call Serve #
                 (case outcome d Serve t1 of None \<Rightarrow> []
                  | Some e \<Rightarrow> [LogError ''Error during initial build.'' e]))
         else (Resolved, t1))"
  using buildSnap_resolved [of d a None None t]
  by (cases "buildSnap d a None None t")
     (simp add: on_ready_def action_defs Let_def split: option.splits)

lemma handler_unreachable: "tryCatch (buildSnap d a path logMessage) h t = buildSnap d a path logMessage t"
  using buildSnap_resolved [of d a path logMessage t]
  by (cases "buildSnap d a path logMessage t") (simp add: tryCatch_def)

lemma emit_resolved: "fst (emit d a ev t) = Resolved"
  by (cases ev)
     (simp_all add: on_ready_eq Let_def on_add_def on_change_def handler_unreachable
        buildSnap_resolved on_unlink_def on_error_def logInfo_def logError_def skip_def)

lemma session_resolved: "fst (session d a evs t) = Resolved"
proof (induction evs arbitrary: t)
  case Nil
  show ?case by (simp add: skip_def)
next
  case (Cons ev evs)
  show ?case
    using emit_resolved [of d a ev t] Cons.IH
    by (cases "emit d a ev t") (simp add: andThen_def)
qed


text \<open>
  Claim C5. Every failure during a run of the pipeline is caught inside
  \<^verbatim>\<open>buildSnap\<close>: whenever the body of the \<^verbatim>\<open>try\<close> block rejects, with whatever
  error and after whatever effects, the run ends there, one error line is written with
  that error, and the promise is resolved. This is spelled out for each step: loading
  the configuration for the bundler, the bundler, the manifest check, eval. The message
  of the line names the path the rebuild function was called with, or says that the
  run was the initial build; the \<^verbatim>\<open>add\<close> and \<^verbatim>\<open>change\<close> handlers call it with
  the event's path and the \<^verbatim>\<open>ready\<close> handler with none. No sequence of watcher
  events ends the session.
\<close>

theorem buildSnap_contains_failures:
  assumes t1: "t1 = (case logMessage of None \<Rightarrow> t | Some m \<Rightarrow> t @ [LogInfo m])"
    and out: "out = outfilePath d a"
    and t2: "t2 = t1 @ [Call LoadConfig]"
    and t3: "t3 = t2 @ [Call (Bundle (src a) out)]"
    and t4: "t4 = (if manifest a then t3 @ [Call ManifestHandler] else t3)"
  shows
    "fst (buildSnap d a path logMessage t) = Resolved \<and>
     (pipeline d a t1 = (Rejected e, u) \<longrightarrow>
        buildSnap d a path logMessage t = (Resolved, u @ [LogError (errorMessage path) e])) \<and>
     (outcome d LoadConfig t1 = Some e \<longrightarrow>
        snd (buildSnap d a path logMessage t) = t2 @ [LogError (errorMessage path) e]) \<and>
     (outcome d LoadConfig t1 = None \<and> outcome d (Bundle (src a) out) t2 = Some e \<longrightarrow>
        snd (buildSnap d a path logMessage t) = t3 @ [LogError (errorMessage path) e]) \<and>
     (outcome d LoadConfig t1 = None \<and> outcome d (Bundle (src a) out) t2 = None \<and>
      manifest a \<and> outcome d ManifestHandler t3 = Some e \<longrightarrow>
        snd (buildSnap d a path logMessage t) = t4 @ [LogError (errorMessage path) e]) \<and>
     (outcome d LoadConfig t1 = None \<and> outcome d (Bundle (src a) out) t2 = None \<and>
      (manifest a \<longrightarrow> outcome d ManifestHandler t3 = None) \<and> shouldEval a \<and>
      outcome d (EvalHandler out) t4 = Some e \<longrightarrow>
        snd (buildSnap d a path logMessage t) =
          t4 @ [Call (EvalHandler out), LogError (errorMessage path) e]) \<and>
     errorMessage None = ''Error during initial build.'' \<and>
     errorMessage (Some p) = ''Error while processing '' @ [CHR 0x22] @ p @ [CHR 0x22] @ ''.'' \<and>
     on_add d a p t = buildSnap d a (Some p) (Some (''File added: '' @ p)) t \<and>
     on_change d a p t = buildSnap d a (Some p) (Some (''File changed: '' @ p)) t \<and>
     (\<exists>rest. snd (on_ready d a t) = snd (buildSnap d a None None t) @ rest) \<and>
     fst (session d a evs t) = Resolved"
proof -
  let ?run = "snd (buildSnap d a path logMessage t)"
  have caught: "buildSnap d a path logMessage t = (Resolved, u @ [LogError (errorMessage path) e])"
    if "pipeline d a t1 = (Rejected e, u)"
    using that by (simp add: buildSnap_eq Let_def t1 [symmetric])
  have config_fails: "?run = t2 @ [LogError (errorMessage path) e]"
    if "outcome d LoadConfig t1 = Some e"
    using that
    by (simp add: buildSnap_eq pipeline_eq Let_def t1 [symmetric] out [symmetric]
        t2 [symmetric])
  have bundle_fails: "?run = t3 @ [LogError (errorMessage path) e]"
    if "outcome d LoadConfig t1 = None" "outcome d (Bundle (src a) out) t2 = Some e"
    using that
    by (simp add: buildSnap_eq pipeline_eq Let_def t1 [symmetric] out [symmetric]
        t2 [symmetric] t3 [symmetric])
  have manifest_fails: "?run = t4 @ [LogError (errorMessage path) e]"
    if "outcome d LoadConfig t1 = None" "outcome d (Bundle (src a) out) t2 = None"
      "manifest a" "outcome d ManifestHandler t3 = Some e"
    using that
    by (simp add: buildSnap_eq pipeline_eq Let_def t1 [symmetric] out [symmetric]
        t2 [symmetric] t3 [symmetric] t4)
  have eval_fails: "?run = t4 @ [Call (EvalHandler out), LogError (errorMessage path) e]"
    if "outcome d LoadConfig t1 = None" "outcome d (Bundle (src a) out) t2 = None"
      "manifest a \<longrightarrow> outcome d ManifestHandler t3 = None"
      "shouldEval a" "outcome d (EvalHandler out) t4 = Some e"
    using that
    by (cases "manifest a")
       (simp_all add: buildSnap_eq pipeline_eq Let_def t1 [symmetric] out [symmetric]
        t2 [symmetric] t3 [symmetric] t4)
  have msg1: "errorMessage None = ''Error during initial build.''"
    by (simp add: errorMessage_def)
  have msg2: "errorMessage (Some p) = ''Error while processing '' @ [CHR 0x22] @ p @ [CHR 0x22] @ ''.''"
    by (simp add: errorMessage_def quoted_def)
  have added: "on_add d a p t = buildSnap d a (Some p) (Some (''File added: '' @ p)) t"
    by (simp add: on_add_def handler_unreachable)
  have changed: "on_change d a p t = buildSnap d a (Some p) (Some (''File changed: '' @ p)) t"
    by (simp add: on_change_def handler_unreachable)
  have first: "\<exists>rest. snd (on_ready d a t) = snd (buildSnap d a None None t) @ rest"
    by (simp add: on_ready_eq Let_def)
  have a1: "pipeline d a t1 = (Rejected e, u) \<longrightarrow>
        buildSnap d a path logMessage t = (Resolved, u @ [LogError (errorMessage path) e])"
    using caught by blast
  have a2: "outcome d LoadConfig t1 = Some e \<longrightarrow> ?run = t2 @ [LogError (errorMessage path) e]"
    using config_fails by blast
  have a3: "outcome d LoadConfig t1 = None \<and> outcome d (Bundle (src a) out) t2 = Some e \<longrightarrow>
        ?run = t3 @ [LogError (errorMessage path) e]"
    using bundle_fails by blast
  have a4: "outcome d LoadConfig t1 = None \<and> outcome d (Bundle (src a) out) t2 = None \<and>
      manifest a \<and> outcome d ManifestHandler t3 = Some e \<longrightarrow>
        ?run = t4 @ [LogError (errorMessage path) e]"
    using manifest_fails by blast
  have a5: "outcome d LoadConfig t1 = None \<and> outcome d (Bundle (src a) out) t2 = None \<and>
      (manifest a \<longrightarrow> outcome d ManifestHandler t3 = None) \<and> shouldEval a \<and>
      outcome d (EvalHandler out) t4 = Some e \<longrightarrow>
        ?run = t4 @ [Call (EvalHandler out), LogError (errorMessage path) e]"
    using eval_fails by blast
  show ?thesis
    by (rule conjI buildSnap_resolved a1 a2 a3 a4 a5 msg1 msg2 added changed first
        session_resolved)+
qed

theorem buildSnap_contains_failures_witness:
  "snd (buildSnap (sample_deps [LoadConfig]) sample_argv None None []) =
     [Call LoadConfig, LogError (errorMessage None) (JsError ''boom'')] \<and>
   snd (buildSnap (sample_deps [Bundle ''src/index.js'' ''dist/bundle.js'']) sample_argv
      (Some ''src/helpers.js'') (Some ''File changed: src/helpers.js'') []) =
     [LogInfo ''File changed: src/helpers.js'', Call LoadConfig,
      Call (Bundle ''src/index.js'' ''dist/bundle.js''),
      LogError (errorMessage (Some ''src/helpers.js'')) (JsError ''boom'')] \<and>
   snd (buildSnap (sample_deps [ManifestHandler]) sample_argv None None []) =
     [Call LoadConfig, Call (Bundle ''src/index.js'' ''dist/bundle.js''), Call ManifestHandler,
      LogError (errorMessage None) (JsError ''boom'')] \<and>
   snd (buildSnap (sample_deps [EvalHandler ''dist/bundle.js'']) sample_argv None None []) =
     [Call LoadConfig, Call (Bundle ''src/index.js'' ''dist/bundle.js''), Call ManifestHandler,
      Call (EvalHandler ''dist/bundle.js''), LogError (errorMessage None) (JsError ''boom'')]"
proof -
  have w0: "snd (buildSnap (sample_deps [LoadConfig]) sample_argv None None []) =
     [Call LoadConfig, LogError (errorMessage None) (JsError ''boom'')]"
    using buildSnap_contains_failures
       [where d = "sample_deps [LoadConfig]"
        and a = sample_argv and path = None and logMessage = None and t = "[]"
        and ?t1.0 = "[]" and out = "''dist/bundle.js''"
        and ?t2.0 = "[Call LoadConfig]"
        and ?t3.0 = "[Call LoadConfig, Call (Bundle ''src/index.js'' ''dist/bundle.js'')]"
        and ?t4.0 = "[Call LoadConfig, Call (Bundle ''src/index.js'' ''dist/bundle.js''),
                      Call ManifestHandler]"
        and e = "JsError ''boom''"]
    by (simp add: sample_out sample_outcome sample_fields)
  have w1: "snd (buildSnap (sample_deps [Bundle ''src/index.js'' ''dist/bundle.js'']) sample_argv
      (Some ''src/helpers.js'') (Some ''File changed: src/helpers.js'') []) =
     [LogInfo ''File changed: src/helpers.js'', Call LoadConfig,
      Call (Bundle ''src/index.js'' ''dist/bundle.js''),
      LogError (errorMessage (Some ''src/helpers.js'')) (JsError ''boom'')]"
    using buildSnap_contains_failures
       [where d = "sample_deps [Bundle ''src/index.js'' ''dist/bundle.js'']"
        and a = sample_argv and path = "Some ''src/helpers.js''"
        and logMessage = "Some ''File changed: src/helpers.js''" and t = "[]"
        and ?t1.0 = "[LogInfo ''File changed: src/helpers.js'']"
        and out = "''dist/bundle.js''"
        and ?t2.0 = "[LogInfo ''File changed: src/helpers.js'', Call LoadConfig]"
        and ?t3.0 = "[LogInfo ''File changed: src/helpers.js'', Call LoadConfig,
                      Call (Bundle ''src/index.js'' ''dist/bundle.js'')]"
        and ?t4.0 = "[LogInfo ''File changed: src/helpers.js'', Call LoadConfig,
                      Call (Bundle ''src/index.js'' ''dist/bundle.js''), Call ManifestHandler]"
        and e = "JsError ''boom''"]
    by (simp add: sample_out sample_outcome sample_fields)
  have w2: "snd (buildSnap (sample_deps [ManifestHandler]) sample_argv None None []) =
     [Call LoadConfig, Call (Bundle ''src/index.js'' ''dist/bundle.js''), Call ManifestHandler,
      LogError (errorMessage None) (JsError ''boom'')]"
    using buildSnap_contains_failures
       [where d = "sample_deps [ManifestHandler]"
        and a = sample_argv and path = None and logMessage = None and t = "[]"
        and ?t1.0 = "[]" and out = "''dist/bundle.js''"
        and ?t2.0 = "[Call LoadConfig]"
        and ?t3.0 = "[Call LoadConfig, Call (Bundle ''src/index.js'' ''dist/bundle.js'')]"
        and ?t4.0 = "[Call LoadConfig, Call (Bundle ''src/index.js'' ''dist/bundle.js''),
                      Call ManifestHandler]"
        and e = "JsError ''boom''"]
    by (simp add: sample_out sample_outcome sample_fields)
  have w3: "snd (buildSnap (sample_deps [EvalHandler ''dist/bundle.js'']) sample_argv None None []) =
     [Call LoadConfig, Call (Bundle ''src/index.js'' ''dist/bundle.js''), Call ManifestHandler,
      Call (EvalHandler ''dist/bundle.js''), LogError (errorMessage None) (JsError ''boom'')]"
    using buildSnap_contains_failures
       [where d = "sample_deps [EvalHandler ''dist/bundle.js'']"
        and a = sample_argv and path = None and logMessage = None and t = "[]"
        and ?t1.0 = "[]" and out = "''dist/bundle.js''"
        and ?t2.0 = "[Call LoadConfig]"
        and ?t3.0 = "[Call LoadConfig, Call (Bundle ''src/index.js'' ''dist/bundle.js'')]"
        and ?t4.0 = "[Call LoadConfig, Call (Bundle ''src/index.js'' ''dist/bundle.js''),
                      Call ManifestHandler]"
        and e = "JsError ''boom''"]
    by (simp add: sample_out sample_outcome sample_fields)
  show ?thesis by (rule conjI w0 w1 w2 w3)+
qed

text \<open>
  Claim C10. The promise returned by \<^verbatim>\<open>buildSnap\<close> is resolved for every input.
  So a \<^verbatim>\<open>.catch\<close> handler attached to it never runs, whatever the handler is: the
  \<^verbatim>\<open>add\<close> and \<^verbatim>\<open>change\<close> handlers do exactly what \<^verbatim>\<open>buildSnap\<close> does.
  A run writes one error line when its pipeline fails and none otherwise.
\<close>

theorem buildSnap_never_rejects:
  "fst (buildSnap d a path logMessage t) = Resolved \<and>
   tryCatch (buildSnap d a path logMessage) h t = buildSnap d a path logMessage t \<and>
   on_add d a p t = buildSnap d a (Some p) (Some (''File added: '' @ p)) t \<and>
   on_change d a p t = buildSnap d a (Some p) (Some (''File changed: '' @ p)) t \<and>
   error_logs (snd (buildSnap d a path logMessage t)) =
     error_logs t +
     (if is_rejected (fst (pipeline d a
            (case logMessage of None \<Rightarrow> t | Some m \<Rightarrow> t @ [LogInfo m])))
      then 1 else 0)"
proof -
  have once: "error_logs (snd (buildSnap d a path logMessage t)) =
     error_logs t +
     (if is_rejected (fst (pipeline d a
            (case logMessage of None \<Rightarrow> t | Some m \<Rightarrow> t @ [LogInfo m])))
      then 1 else 0)"
  proof -
    let ?t1 = "case logMessage of None \<Rightarrow> t | Some m \<Rightarrow> t @ [LogInfo m]"
    have e1: "error_logs ?t1 = error_logs t"
      by (simp add: error_logs_append split: option.splits)
    obtain r t2 where p: "pipeline d a ?t1 = (r, t2)" by (cases "pipeline d a ?t1")
    have e2: "error_logs t2 = error_logs t"
      using pipeline_error_logs [of d a ?t1] p e1 by simp
    show ?thesis
      using p e2 by (cases r) (simp_all add: buildSnap_eq Let_def error_logs_append)
  qed
  show ?thesis
    using buildSnap_resolved [of d a path logMessage t] handler_unreachable once
    by (simp add: on_add_def on_change_def)
qed

subsection \<open>Ignored paths\<close>


lemma star_grow: "seg_match (CHR ''*'' # ps) s \<Longrightarrow> seg_match (CHR ''*'' # ps) (c # s)"
  by simp























lemma plain_dir_relative: "plain_dir dir \<Longrightarrow> \<not> startsWith dir ''/''"
  and plain_dir_no_parent: "plain_dir dir \<Longrightarrow> ''..'' \<notin> set (segments dir)"
  by (simp_all add: plain_dir_def)








lemma helpers_not_ignored: "\<not> is_ignored ''dist'' ''src/helpers.js''"
  by code_simp

lemma nested_dotfile_not_ignored: "\<not> is_ignored ''dist'' ''src/.env''"
  by code_simp


subsection \<open>Events\<close>

lemma sample_root: "rootDir ''src/index.js'' = ''src/''"
  by code_simp

lemma dotfile_segment: "startsWith (last (segments ''src/.env'')) ''.''"
  by code_simp

text \<open>
  Claim C1, evaluated at a dotfile inside the watched directory. The predicate of the
  list tests the whole path the watcher hands it, not its last segment: the path
  \<^verbatim>\<open>src/.env\<close> does not start with a dot, no glob of the list accepts it, and its
  \<^verbatim>\<open>change\<close> event runs the whole pipeline.
\<close>

theorem nested_dotfile_triggers_rebuild:
  "startsWith (last (segments ''src/.env'')) ''.'' \<and>
   ''src/.env'' \<noteq> rootDir (src sample_argv) \<and>
   \<not> is_ignored (dist sample_argv) ''src/.env'' \<and>
   snd (emit (sample_deps []) sample_argv (Change ''src/.env'') []) =
     [LogInfo ''File changed: src/.env'', Call LoadConfig,
      Call (Bundle ''src/index.js'' ''dist/bundle.js''), Call ManifestHandler,
      Call (EvalHandler ''dist/bundle.js'')]"
proof -
  have root: "''src/.env'' \<noteq> rootDir (src sample_argv)"
    by (simp add: sample_fields sample_root)
  have ign: "\<not> is_ignored (dist sample_argv) ''src/.env''"
    by (simp add: sample_fields nested_dotfile_not_ignored)
  have run: "snd (emit (sample_deps []) sample_argv (Change ''src/.env'') []) =
     [LogInfo ''File changed: src/.env'', Call LoadConfig,
      Call (Bundle ''src/index.js'' ''dist/bundle.js''), Call ManifestHandler,
      Call (EvalHandler ''dist/bundle.js'')]"
    using ign
    by (simp add: on_change_def handler_unreachable buildSnap_eq pipeline_eq Let_def
        sample_out sample_outcome sample_fields)
  show ?thesis by (rule conjI dotfile_segment root ign run)+
qed

text \<open>
  Claim C9. A \<^verbatim>\<open>unlink\<close> event for a path that is not ignored writes the line
  \<^verbatim>\<open>File removed: <path>\<close> and nothing else; no \<^verbatim>\<open>unlink\<close> event calls a
  collaborator, so none starts a run of the rebuild function.
\<close>

theorem unlink_only_announces:
  "(\<not> is_ignored (dist a) path \<longrightarrow>
      emit d a (Unlink path) t = (Resolved, t @ [LogInfo (''File removed: '' @ path)])) \<and>
   calls (snd (emit d a (Unlink path) t)) = calls t"
  by (simp add: on_unlink_def logInfo_def skip_def calls_append)

theorem unlink_only_announces_witness:
  "\<not> is_ignored (dist sample_argv) ''src/helpers.js'' \<and>
   emit (sample_deps []) sample_argv (Unlink ''src/helpers.js'') [] =
     (Resolved, [LogInfo ''File removed: src/helpers.js''])"
proof -
  have h: "\<not> is_ignored (dist sample_argv) ''src/helpers.js''"
    by (simp add: sample_fields helpers_not_ignored)
  have w: "emit (sample_deps []) sample_argv (Unlink ''src/helpers.js'') [] =
     (Resolved, [] @ [LogInfo (''File removed: '' @ ''src/helpers.js'')])"
    using unlink_only_announces [of sample_argv "''src/helpers.js''" "sample_deps []" "[]"] h
    by blast
  have w': "emit (sample_deps []) sample_argv (Unlink ''src/helpers.js'') [] =
     (Resolved, [LogInfo ''File removed: src/helpers.js''])"
    using w by (simp only: append_Nil append_Cons)
  show ?thesis by (rule conjI h w')+
qed

subsection \<open>The dev server\<close>

lemma serve_starts_append: "serve_starts (t @ u) = serve_starts t + serve_starts u"
  by (simp add: serve_starts_def calls_append)

lemma pipeline_serve: "serve_starts (snd (pipeline d a t)) = serve_starts t"
  by (simp add: pipeline_eq Let_def serve_starts_def calls_append split: option.splits)

lemma buildSnap_serve: "serve_starts (snd (buildSnap d a path logMessage t)) = serve_starts t"
proof -
  let ?t1 = "case logMessage of None \<Rightarrow> t | Some m \<Rightarrow> t @ [LogInfo m]"
  have e1: "serve_starts ?t1 = serve_starts t"
    by (simp add: serve_starts_def calls_append split: option.splits)
  obtain r t2 where p: "pipeline d a ?t1 = (r, t2)" by (cases "pipeline d a ?t1")
  have e2: "serve_starts t2 = serve_starts t"
    using pipeline_serve [of d a ?t1] p e1 by simp
  show ?thesis
    using p e2 by (cases r) (simp_all add: buildSnap_eq Let_def serve_starts_def calls_append)
qed

lemma on_ready_serve:
  "serve_starts (snd (on_ready d a t)) = serve_starts t + (if shouldServe a then 1 else 0)"
  using buildSnap_serve [of d a None None t]
  by (simp add: on_ready_eq Let_def serve_starts_def calls_append split: option.splits)

lemma emit_serve:
  "serve_starts (snd (emit d a ev t)) =
     serve_starts t + (if ev = Ready \<and> shouldServe a then 1 else 0)"
proof (cases ev)
  case Ready
  then show ?thesis by (simp add: on_ready_serve)
next
  case (Add p)
  then show ?thesis
    by (simp add: on_add_def handler_unreachable buildSnap_serve skip_def)
next
  case (Change p)
  then show ?thesis
    by (simp add: on_change_def handler_unreachable buildSnap_serve skip_def)
next
  case (Unlink p)
  then show ?thesis
    by (simp add: on_unlink_def logInfo_def skip_def serve_starts_def calls_append)
next
  case (WatcherError e)
  then show ?thesis
    by (simp add: on_error_def logError_def serve_starts_def calls_append)
qed

lemma session_serve:
  "serve_starts (snd (session d a evs t)) =
     serve_starts t + (if shouldServe a then count_list evs Ready else 0)"
proof (induction evs arbitrary: t)
  case Nil
  show ?case by (simp add: skip_def)
next
  case (Cons ev evs)
  obtain t' where e: "emit d a ev t = (Resolved, t')"
    using emit_resolved [of d a ev t] by (cases "emit d a ev t") simp
  have "serve_starts t' = serve_starts t + (if ev = Ready \<and> shouldServe a then 1 else 0)"
    using emit_serve [of d a ev t] e by simp
  then show ?case
    using Cons.IH [of t'] e by (simp add: andThen_def)
qed


text \<open>
  With the serve flag set and a bundler that fails, the first run fails, its error is
  logged, and the dev server is started all the same.
\<close>

theorem serve_after_failed_build_counterexample:
  "shouldServe sample_argv \<and>
   is_rejected (fst (pipeline (sample_deps [Bundle ''src/index.js'' ''dist/bundle.js''])
     sample_argv [])) \<and>
   snd (on_ready (sample_deps [Bundle ''src/index.js'' ''dist/bundle.js'']) sample_argv []) =
     [Call LoadConfig, Call (Bundle ''src/index.js'' ''dist/bundle.js''),
      LogError ''Error during initial build.'' (JsError ''boom''), Call Serve]"
  by (simp add: on_ready_eq buildSnap_eq pipeline_eq Let_def errorMessage_def
      sample_out sample_outcome sample_fields)

text \<open>
  Claim C2, amended. The dev server is started only after the first run, the one the
  \<^verbatim>\<open>ready\<close> event triggers, has completed, whether that run succeeded or failed
  (\<^verbatim>\<open>buildSnap\<close> always resolves): with the serve flag set, the server is started
  right after the calls of that run; without the flag \<^verbatim>\<open>ready\<close> does what that run
  does and no more.
\<close>

theorem serve_after_first_run:
  "(shouldServe a \<longrightarrow>
      calls (snd (on_ready d a t)) = calls (snd (buildSnap d a None None t)) @ [Serve]) \<and>
   (\<not> shouldServe a \<longrightarrow> snd (on_ready d a t) = snd (buildSnap d a None None t)) \<and>
   fst (buildSnap d a None None t) = Resolved"
  by (simp add: on_ready_eq Let_def calls_append buildSnap_resolved split: option.splits)

theorem serve_after_first_run_witness:
  "shouldServe sample_argv \<and>
   calls (snd (on_ready (sample_deps [Bundle ''src/index.js'' ''dist/bundle.js'']) sample_argv [])) =
     calls (snd (buildSnap (sample_deps [Bundle ''src/index.js'' ''dist/bundle.js''])
       sample_argv None None [])) @ [Serve] \<and>
   \<not> shouldServe (sample_argv\<lparr>shouldServe := False\<rparr>) \<and>
   snd (on_ready (sample_deps []) (sample_argv\<lparr>shouldServe := False\<rparr>) []) =
     snd (buildSnap (sample_deps []) (sample_argv\<lparr>shouldServe := False\<rparr>) None None [])"
proof -
  have h1: "shouldServe sample_argv" by (simp add: sample_fields)
  have h2: "\<not> shouldServe (sample_argv\<lparr>shouldServe := False\<rparr>)" by simp
  note w1 = serve_after_first_run [of sample_argv
      "sample_deps [Bundle ''src/index.js'' ''dist/bundle.js'']" "[]",
      THEN conjunct1, THEN mp, OF h1]
  note w2 = serve_after_first_run [of "sample_argv\<lparr>shouldServe := False\<rparr>"
      "sample_deps []" "[]", THEN conjunct2, THEN conjunct1, THEN mp, OF h2]
  show ?thesis by (rule conjI h1 w1 h2 w2)+
qed

text \<open>
  Claim C8. The watcher reports \<^verbatim>\<open>ready\<close> at most once in a session. Then the dev
  server is started at most once: as often as \<^verbatim>\<open>ready\<close> occurs when the serve flag
  is set, never otherwise, by no other event, and not by the rebuild function. In the
  \<^verbatim>\<open>ready\<close> handler the start follows everything the first run does. When the start
  fails, an error line is written and the handler still resolves; no sequence of
  events ends the session.
\<close>

theorem serve_at_most_once:
  assumes "count_list evs Ready \<le> 1"
  shows "serve_starts (snd (session d a evs t)) \<le> serve_starts t + 1 \<and>
         serve_starts (snd (session d a evs t)) =
           serve_starts t + (if shouldServe a then count_list evs Ready else 0) \<and>
         (ev \<noteq> Ready \<longrightarrow> serve_starts (snd (emit d a ev t)) = serve_starts t) \<and>
         serve_starts (snd (buildSnap d a None None t)) = serve_starts t \<and>
         on_ready d a t =
           (Resolved,
            snd (buildSnap d a None None t) @
            (if shouldServe a
             then Call Serve #
               (case outcome d Serve (snd (buildSnap d a None None t)) of None \<Rightarrow> []
                | Some e \<Rightarrow> [LogError ''Error during initial build.'' e])
             else [])) \<and>
         fst (session d a evs t) = Resolved"
proof -
  have c1: "serve_starts (snd (session d a evs t)) \<le> serve_starts t + 1"
    using assms by (simp add: session_serve)
  have c3: "ev \<noteq> Ready \<longrightarrow> serve_starts (snd (emit d a ev t)) = serve_starts t"
    by (simp add: emit_serve)
  have c5: "on_ready d a t =
           (Resolved,
            snd (buildSnap d a None None t) @
            (if shouldServe a
             then Call Serve #
               (case outcome d Serve (snd (buildSnap d a None None t)) of None \<Rightarrow> []
                | Some e \<Rightarrow> [LogError ''Error during initial build.'' e])
             else []))"
    by (simp add: on_ready_eq Let_def)
  show ?thesis
    by (rule conjI c1 session_serve c3 buildSnap_serve c5 session_resolved)+
qed

theorem serve_at_most_once_witness:
  "count_list [Ready, Change ''src/helpers.js'', WatcherError (JsError ''EMFILE''),
      Add ''src/new.js''] Ready \<le> 1 \<and>
   serve_starts (snd (session (sample_deps [Serve]) sample_argv
     [Ready, Change ''src/helpers.js'', WatcherError (JsError ''EMFILE''), Add ''src/new.js'']
     [])) \<le> serve_starts [] + 1 \<and>
   fst (session (sample_deps [Serve]) sample_argv
     [Ready, Change ''src/helpers.js'', WatcherError (JsError ''EMFILE''), Add ''src/new.js'']
     []) = Resolved"
proof -
  have h: "count_list [Ready, Change ''src/helpers.js'', WatcherError (JsError ''EMFILE''),
      Add ''src/new.js''] Ready \<le> 1" by simp
  note w = serve_at_most_once [OF h, of "sample_deps [Serve]" sample_argv "[]" Ready]
  show ?thesis by (rule conjI h w [THEN conjunct1] session_resolved)+
qed


subsection \<open>Setup\<close>

lemma watch_eq:
  "watch d a t =
     (let t1 = (case outfileName a of None \<Rightarrow> t
                | Some n \<Rightarrow> if n = [] then t else t @ [Call (ValidateOutfileName n)]);
          name_result = (case outfileName a of None \<Rightarrow> None
                | Some n \<Rightarrow> if n = [] then None else outcome d (ValidateOutfileName n) t);
          t2 = t1 @ [Call (ValidateFilePath (src a))];
          t3 = t2 @ [Call (ValidateDirPath (dist a) True)];
          t4 = t3 @ [Call (ChokidarWatch (rootDir (src a)))]
      in case name_result of Some e \<Rightarrow> (Rejected e, t1)
         | None \<Rightarrow>
           (case outcome d (ValidateFilePath (src a)) t1 of Some e \<Rightarrow> (Rejected e, t2)
            | None \<Rightarrow>
              (case outcome d (ValidateDirPath (dist a) True) t2 of Some e \<Rightarrow> (Rejected e, t3)
               | None \<Rightarrow>
                 (case outcome d (ChokidarWatch (rootDir (src a))) t3 of
                    Some e \<Rightarrow> (Rejected e, t4)
                  | None \<Rightarrow>
                    (Resolved, t4 @ [LogInfo (''Watching '' @ [CHR 0x27] @ rootDir (src a) @
                       [CHR 0x27] @ '' for changes...'')])))))"
  by (simp add: watch_def action_defs Let_def split: option.splits)

text \<open>
  Claim C7. Setup validates the output file name (only when one is given; an empty name
  counts as not given, as in the source's \<^verbatim>\<open>if (outfileName)\<close>), then the source
  path, then the output directory with creation allowed. The first validation that
  fails ends \<^verbatim>\<open>watch\<close> with that error, after the calls made so far and with no
  subscription. The watcher is subscribed, to the root directory, only when all three
  validations passed.
\<close>

theorem watch_validation_order:
  assumes t1: "t1 = (case outfileName a of None \<Rightarrow> t
                | Some n \<Rightarrow> if n = [] then t else t @ [Call (ValidateOutfileName n)])"
    and name: "name_result = (case outfileName a of None \<Rightarrow> None
                | Some n \<Rightarrow> if n = [] then None else outcome d (ValidateOutfileName n) t)"
    and t2: "t2 = t1 @ [Call (ValidateFilePath (src a))]"
    and t3: "t3 = t2 @ [Call (ValidateDirPath (dist a) True)]"
  shows
    "(name_result = Some e \<longrightarrow> watch d a t = (Rejected e, t1)) \<and>
     (name_result = None \<and> outcome d (ValidateFilePath (src a)) t1 = Some e \<longrightarrow>
        watch d a t = (Rejected e, t2)) \<and>
     (name_result = None \<and> outcome d (ValidateFilePath (src a)) t1 = None \<and>
      outcome d (ValidateDirPath (dist a) True) t2 = Some e \<longrightarrow>
        watch d a t = (Rejected e, t3)) \<and>
     (name_result = None \<and> outcome d (ValidateFilePath (src a)) t1 = None \<and>
      outcome d (ValidateDirPath (dist a) True) t2 = None \<longrightarrow>
        calls (snd (watch d a t)) = calls t3 @ [ChokidarWatch (rootDir (src a))]) \<and>
     (Call (ChokidarWatch r) \<in> set (snd (watch d a t)) \<and> Call (ChokidarWatch r) \<notin> set t \<longrightarrow>
        name_result = None \<and> outcome d (ValidateFilePath (src a)) t1 = None \<and>
        outcome d (ValidateDirPath (dist a) True) t2 = None)"
proof -
  have name_fails: "watch d a t = (Rejected x, t1)" if "name_result = Some x" for x
    using that by (simp add: watch_eq Let_def t1 [symmetric] name [symmetric])
  have file_fails: "watch d a t = (Rejected x, t2)"
    if "name_result = None" "outcome d (ValidateFilePath (src a)) t1 = Some x" for x
    using that by (simp add: watch_eq Let_def t1 [symmetric] name [symmetric] t2 [symmetric])
  have dir_fails: "watch d a t = (Rejected x, t3)"
    if "name_result = None" "outcome d (ValidateFilePath (src a)) t1 = None"
      "outcome d (ValidateDirPath (dist a) True) t2 = Some x" for x
    using that
    by (simp add: watch_eq Let_def t1 [symmetric] name [symmetric] t2 [symmetric] t3 [symmetric])
  have subscribed: "calls (snd (watch d a t)) = calls t3 @ [ChokidarWatch (rootDir (src a))]"
    if "name_result = None" "outcome d (ValidateFilePath (src a)) t1 = None"
      "outcome d (ValidateDirPath (dist a) True) t2 = None"
    using that
    by (simp add: watch_eq Let_def t1 [symmetric] name [symmetric] t2 [symmetric] t3 [symmetric]
        calls_append split: option.splits)
  have fresh1: "Call (ChokidarWatch r) \<in> set t" if "Call (ChokidarWatch r) \<in> set t1"
    using that by (simp add: t1 split: option.splits if_splits)
  have fresh2: "Call (ChokidarWatch r) \<in> set t" if "Call (ChokidarWatch r) \<in> set t2"
    using that fresh1 by (simp add: t2)
  have fresh3: "Call (ChokidarWatch r) \<in> set t" if "Call (ChokidarWatch r) \<in> set t3"
    using that fresh2 by (simp add: t3)
  have only_valid: "name_result = None \<and> outcome d (ValidateFilePath (src a)) t1 = None \<and>
        outcome d (ValidateDirPath (dist a) True) t2 = None"
    if sub: "Call (ChokidarWatch r) \<in> set (snd (watch d a t))"
      and new: "Call (ChokidarWatch r) \<notin> set t"
  proof -
    have n: "name_result = None"
    proof (cases name_result)
      case (Some x)
      then show ?thesis using name_fails [of x] sub new fresh1 by simp
    qed simp
    have f: "outcome d (ValidateFilePath (src a)) t1 = None"
    proof (cases "outcome d (ValidateFilePath (src a)) t1")
      case (Some x)
      then show ?thesis using file_fails [of x] n sub new fresh2 by simp
    qed simp
    have v: "outcome d (ValidateDirPath (dist a) True) t2 = None"
    proof (cases "outcome d (ValidateDirPath (dist a) True) t2")
      case (Some x)
      then show ?thesis using dir_fails [of x] n f sub new fresh3 by simp
    qed simp
    show ?thesis using n f v by simp
  qed
  have a1: "name_result = Some e \<longrightarrow> watch d a t = (Rejected e, t1)"
    using name_fails by blast
  have a2: "name_result = None \<and> outcome d (ValidateFilePath (src a)) t1 = Some e \<longrightarrow>
        watch d a t = (Rejected e, t2)"
    using file_fails by blast
  have a3: "name_result = None \<and> outcome d (ValidateFilePath (src a)) t1 = None \<and>
      outcome d (ValidateDirPath (dist a) True) t2 = Some e \<longrightarrow>
        watch d a t = (Rejected e, t3)"
    using dir_fails by blast
  have a4: "name_result = None \<and> outcome d (ValidateFilePath (src a)) t1 = None \<and>
      outcome d (ValidateDirPath (dist a) True) t2 = None \<longrightarrow>
        calls (snd (watch d a t)) = calls t3 @ [ChokidarWatch (rootDir (src a))]"
    using subscribed by simp
  have a5: "Call (ChokidarWatch r) \<in> set (snd (watch d a t)) \<and> Call (ChokidarWatch r) \<notin> set t \<longrightarrow>
        name_result = None \<and> outcome d (ValidateFilePath (src a)) t1 = None \<and>
        outcome d (ValidateDirPath (dist a) True) t2 = None"
    using only_valid by blast
  show ?thesis by (rule conjI a1 a2 a3 a4 a5)+
qed

theorem watch_validation_order_witness:
  "watch (sample_deps [ValidateOutfileName ''my bundle.js''])
      (sample_argv\<lparr>outfileName := Some ''my bundle.js''\<rparr>) [] =
     (Rejected (JsError ''boom''), [Call (ValidateOutfileName ''my bundle.js'')]) \<and>
   watch (sample_deps [ValidateFilePath ''src/index.js'']) sample_argv [] =
     (Rejected (JsError ''boom''), [Call (ValidateFilePath ''src/index.js'')]) \<and>
   watch (sample_deps [ValidateDirPath ''dist'' True]) sample_argv [] =
     (Rejected (JsError ''boom''),
      [Call (ValidateFilePath ''src/index.js''), Call (ValidateDirPath ''dist'' True)]) \<and>
   calls (snd (watch (sample_deps []) (sample_argv\<lparr>outfileName := Some ''out.js''\<rparr>) [])) =
     [ValidateOutfileName ''out.js'', ValidateFilePath ''src/index.js'',
      ValidateDirPath ''dist'' True, ChokidarWatch ''src/'']"
proof -
  have w1: "watch (sample_deps [ValidateOutfileName ''my bundle.js''])
      (sample_argv\<lparr>outfileName := Some ''my bundle.js''\<rparr>) [] =
     (Rejected (JsError ''boom''), [Call (ValidateOutfileName ''my bundle.js'')])"
    using watch_validation_order
      [where d = "sample_deps [ValidateOutfileName ''my bundle.js'']"
       and a = "sample_argv\<lparr>outfileName := Some ''my bundle.js''\<rparr>" and t = "[]"
       and ?t1.0 = "[Call (ValidateOutfileName ''my bundle.js'')]"
       and name_result = "Some (JsError ''boom'')"
       and ?t2.0 = "[Call (ValidateOutfileName ''my bundle.js''), Call (ValidateFilePath ''src/index.js'')]"
       and ?t3.0 = "[Call (ValidateOutfileName ''my bundle.js''), Call (ValidateFilePath ''src/index.js''),
                     Call (ValidateDirPath ''dist'' True)]"
       and e = "JsError ''boom''"]
    by (simp add: sample_outcome sample_fields)
  have w2: "watch (sample_deps [ValidateFilePath ''src/index.js'']) sample_argv [] =
     (Rejected (JsError ''boom''), [Call (ValidateFilePath ''src/index.js'')])"
    using watch_validation_order
      [where d = "sample_deps [ValidateFilePath ''src/index.js'']"
       and a = sample_argv and t = "[]" and ?t1.0 = "[]" and name_result = None
       and ?t2.0 = "[Call (ValidateFilePath ''src/index.js'')]"
       and ?t3.0 = "[Call (ValidateFilePath ''src/index.js''), Call (ValidateDirPath ''dist'' True)]"
       and e = "JsError ''boom''"]
    by (simp add: sample_outcome sample_fields)
  have w3: "watch (sample_deps [ValidateDirPath ''dist'' True]) sample_argv [] =
     (Rejected (JsError ''boom''),
      [Call (ValidateFilePath ''src/index.js''), Call (ValidateDirPath ''dist'' True)])"
    using watch_validation_order
      [where d = "sample_deps [ValidateDirPath ''dist'' True]"
       and a = sample_argv and t = "[]" and ?t1.0 = "[]" and name_result = None
       and ?t2.0 = "[Call (ValidateFilePath ''src/index.js'')]"
       and ?t3.0 = "[Call (ValidateFilePath ''src/index.js''), Call (ValidateDirPath ''dist'' True)]"
       and e = "JsError ''boom''"]
    by (simp add: sample_outcome sample_fields)
  have w4: "calls (snd (watch (sample_deps []) (sample_argv\<lparr>outfileName := Some ''out.js''\<rparr>) [])) =
     [ValidateOutfileName ''out.js'', ValidateFilePath ''src/index.js'',
      ValidateDirPath ''dist'' True, ChokidarWatch ''src/'']"
    using watch_validation_order
      [where d = "sample_deps []"
       and a = "sample_argv\<lparr>outfileName := Some ''out.js''\<rparr>" and t = "[]"
       and ?t1.0 = "[Call (ValidateOutfileName ''out.js'')]"
       and name_result = None
       and ?t2.0 = "[Call (ValidateOutfileName ''out.js''), Call (ValidateFilePath ''src/index.js'')]"
       and ?t3.0 = "[Call (ValidateOutfileName ''out.js''), Call (ValidateFilePath ''src/index.js''),
                     Call (ValidateDirPath ''dist'' True)]"]
    by (simp add: sample_outcome sample_fields sample_root)
  show ?thesis by (rule conjI w1 w2 w3 w4)+
qed

end
